theory Spec2Isabelle
  imports Complex_Main "HOL-Library.Sublist" "HOL-Library.Word"
begin

section \<open>KB Dojo: the article pipeline and the batch orchestrator of \<open>app.py\<close>\<close>

text \<open>
  The development embeds the functions of \<open>src/app.py\<close>. Python strings are
  \<open>string\<close> (character lists), lists are lists, the \<open>options\<close> dictionary is a record
  of the three keys the pipeline reads. The external collaborators (the chat client, the
  helpers of \<open>utils.prompt_utils\<close> and \<open>utils.pandoc_utils\<close>) are parameters collected in
  the record \<open>env\<close>; every call to one of them is appended to a trace of events, which is
  the state threaded through the asynchronous functions. Python exceptions are values of
  \<open>py_error\<close>; a function that can raise returns \<open>(py_error + 'a) \<times> world\<close>, the trace
  being kept also when it raises.

  Not modelled: the \<open>logger\<close> calls (they only read strings; the one slice that can raise,
  on a \<open>None\<close> translation, is modelled), the \<open>Temperature\<close> and \<open>Max Tokens\<close> entries of
  \<open>options\<close> (passed to the client unchanged; the client parameter stands for the client
  under fixed generation parameters), and exceptions raised inside the absent helpers.
\<close>

subsection \<open>Python strings\<close>

definition isspace :: "char \<Rightarrow> bool" where
  \<comment> \<open>The ASCII characters on which \<open>str.isspace\<close> holds: TAB, LF, VT, FF, CR,
      FS, GS, RS, US and the blank.\<close>
  "isspace c = (let n = (of_char c :: nat) in (9 \<le> n \<and> n \<le> 13) \<or> (28 \<le> n \<and> n \<le> 32))"

definition strip :: "string \<Rightarrow> string" where
  \<comment> \<open>\<open>s.strip()\<close>\<close>
  "strip s = rev (dropWhile isspace (rev (dropWhile isspace s)))"

fun join :: "string \<Rightarrow> string list \<Rightarrow> string" where
  \<comment> \<open>\<open>sep.join(xs)\<close>\<close>
  "join sep [] = []"
| "join sep [x] = x"
| "join sep (x # y # ys) = x @ sep @ join sep (y # ys)"

subsection \<open>Data\<close>

type_synonym docx = "8 word list"
  \<comment> \<open>the contents of the \<open>BytesIO\<close> returned by \<open>pandoc_utils.save_as_word\<close>\<close>

datatype py_error = TypeError | ZeroDivisionError | AttributeError

record options =
  Actions :: "string list"                \<comment> \<open>\<open>options['Actions']\<close>\<close>
  Perspective :: "string list"            \<comment> \<open>\<open>options['Perspective']\<close>\<close>
  Translation_Languages :: "string list"  \<comment> \<open>\<open>options['Translation Languages']\<close>\<close>

type_synonym result = "docx option \<times> string \<times> string \<times> string"
  \<comment> \<open>the tuples appended to \<open>results\<close>: \<open>(docx_bytes, title, text, lang)\<close>\<close>

datatype event =
    ChatCompletion string string              \<comment> \<open>\<open>client.chat.completions.create\<close>: model, user prompt\<close>
  | PerspectiveSections string "string list"  \<comment> \<open>\<open>prompt_utils.create_perspective_sections\<close>\<close>
  | PuTranslate string string                 \<comment> \<open>\<open>prompt_utils.translate_content\<close>: content, language\<close>
  | SaveAsWord string                         \<comment> \<open>\<open>pandoc_utils.save_as_word\<close>\<close>
  | Progress rat                              \<comment> \<open>\<open>st.progress\<close> and \<open>progress_bar.progress\<close>: the exact
                                                  quotient, which Python rounds to a float\<close>

type_synonym world = "event list"

text \<open>
  The collaborators that are not in \<open>app.py\<close>. Each may answer differently at each call:
  it sees the trace so far. \<open>chat_completions_create\<close> gives the \<open>message.content\<close> of the
  first choice, or \<open>None\<close> for every outcome that ends in the \<open>except Exception\<close> branch
  of \<open>send_to_openai_api_async\<close> (an API error, a completion whose content is \<open>None\<close>).
  \<open>pu_translate_content\<close> is \<open>prompt_utils.translate_content\<close>, which the pipeline calls
  instead of the \<open>translate_content\<close> of \<open>app.py\<close>; like that one it may return \<open>None\<close>.
  \<open>save_as_word\<close> returns \<open>None\<close> when the conversion fails.
\<close>

record env =
  chat_completions_create :: "world \<Rightarrow> string \<Rightarrow> string \<Rightarrow> string option"
  create_perspective_sections :: "world \<Rightarrow> string \<Rightarrow> string list \<Rightarrow> string"
  pu_translate_content :: "world \<Rightarrow> string \<Rightarrow> string \<Rightarrow> string option"
  save_as_word :: "world \<Rightarrow> string \<Rightarrow> docx option"

subsection \<open>The model client\<close>

definition send_to_openai_api_async ::
  "env \<Rightarrow> string \<Rightarrow> string \<Rightarrow> world \<Rightarrow> string option \<times> world" where
  "send_to_openai_api_async e prompt selected_model w =
     (case chat_completions_create e w selected_model prompt of
        None \<Rightarrow> (None, w @ [ChatCompletion selected_model prompt])
      | Some text \<Rightarrow> (Some (strip text), w @ [ChatCompletion selected_model prompt]))"

subsection \<open>The prompts and the calls that send them\<close>

definition perspectives_clause :: "string list \<Rightarrow> string" where
  \<comment> \<open>\<open>if perspectives: prompt += ...\<close>, in \<open>generate_content\<close> and \<open>reauthor_content\<close>\<close>
  "perspectives_clause perspectives =
     (if perspectives \<noteq> [] then
        ''Include separate sections for the following perspectives: ''
          @ join '', '' perspectives @ ''.\<newline>\<newline>''
      else [])"

definition generate_prompt :: "string \<Rightarrow> string \<Rightarrow> string list \<Rightarrow> string" where
  "generate_prompt title content perspectives =
     ''Generate a detailed knowledge base article based on the following title and content. If the content is a specific request (e.g., 'write a recipe for chocolate cake'), create an article that fulfills that request. Title: ''
       @ title @ ''\<newline>\<newline>Content or Request: '' @ content @ ''\<newline>\<newline>''
       @ perspectives_clause perspectives
       @ ''Provide the generated content in markdown format, without any additional comments or questions.''"

definition generate_content ::
  "env \<Rightarrow> string \<Rightarrow> string \<Rightarrow> string list \<Rightarrow> string \<Rightarrow> world \<Rightarrow> string \<times> world" where
  "generate_content e title content perspectives selected_model w =
     (case send_to_openai_api_async e (generate_prompt title content perspectives) selected_model w of
        (None, w') \<Rightarrow> (content, w')
      | (Some generated_content, w') \<Rightarrow>
          (if strip generated_content = [] then (content, w') else (generated_content, w')))"

definition truthy :: "string option \<Rightarrow> bool" where
  \<comment> \<open>\<open>if template_content:\<close> : neither \<open>None\<close> nor the empty string\<close>
  "truthy t = (case t of None \<Rightarrow> False | Some s \<Rightarrow> s \<noteq> [])"

definition reauthor_prompt :: "string \<Rightarrow> string option \<Rightarrow> string list \<Rightarrow> string" where
  "reauthor_prompt content template_content perspectives =
     (if strip content = [] then ''Generate a knowledge base article based on the following template:''
      else ''Reauthor the following content'')
       @ (if truthy template_content then
            '', using the provided template as a guide for formatting:\<newline>\<newline>Template:\<newline>''
              @ the template_content @ ''\<newline>\<newline>Content to reauthor:''
          else '', maintaining its core information but improving its clarity, structure, and readability:'')
       @ ''\<newline>\<newline>'' @ content @ ''\<newline>\<newline>''
       @ perspectives_clause perspectives
       @ ''Provide the reauthored content directly, without any additional comments or questions.''"

definition reauthor_content ::
  "env \<Rightarrow> string \<Rightarrow> string option \<Rightarrow> string list \<Rightarrow> string \<Rightarrow> world \<Rightarrow> string \<times> world" where
  "reauthor_content e content template_content perspectives selected_model w =
     (case send_to_openai_api_async e (reauthor_prompt content template_content perspectives) selected_model w of
        (None, w') \<Rightarrow> (content, w')
      | (Some reauthored_content, w') \<Rightarrow>
          (if strip reauthored_content = [] then (content, w') else (reauthored_content, w')))"

definition format_prompt :: "string \<Rightarrow> string \<Rightarrow> string" where
  "format_prompt content template =
     ''Format the following content to match the provided template structure, maintaining the original information:\<newline>\<newline>Content:\<newline>''
       @ content @ ''\<newline>\<newline>Template:\<newline>'' @ template"

definition format_to_template ::
  "env \<Rightarrow> string \<Rightarrow> string \<Rightarrow> string \<Rightarrow> world \<Rightarrow> string option \<times> world" where
  "format_to_template e content template selected_model w =
     send_to_openai_api_async e (format_prompt content template) selected_model w"

definition translate_prompt :: "string \<Rightarrow> string \<Rightarrow> string" where
  "translate_prompt content language =
     ''Translate the following content to '' @ language
       @ '', maintaining its original structure and formatting. Provide the translated content directly, without any additional comments or questions:\<newline>\<newline>''
       @ content"

definition translate_content ::
  "env \<Rightarrow> string \<Rightarrow> string \<Rightarrow> string \<Rightarrow> world \<Rightarrow> string option \<times> world" where
  "translate_content e content language selected_model w =
     send_to_openai_api_async e (translate_prompt content language) selected_model w"

subsection \<open>The article pipeline\<close>

definition content_stage ::
  "env \<Rightarrow> string \<Rightarrow> string \<Rightarrow> options \<Rightarrow> string \<Rightarrow> string option \<Rightarrow> world \<Rightarrow> string \<times> world" where
  \<comment> \<open>Step 1: Generate or Reauthor Content\<close>
  "content_stage e title content options selected_model template_content w =
     (if ''Generate Content'' \<in> set (Actions options) then
        generate_content e title content (Perspective options) selected_model w
      else if ''Reauthor Content'' \<in> set (Actions options)
              \<or> ''Format to Template'' \<in> set (Actions options) then
        reauthor_content e content template_content (Perspective options) selected_model w
      else (content, w))"

definition perspective_stage :: "env \<Rightarrow> options \<Rightarrow> string \<Rightarrow> world \<Rightarrow> string \<times> world" where
  \<comment> \<open>Step 2: Apply perspectives (if not already done in reauthoring)\<close>
  "perspective_stage e options processed_content w =
     (if Perspective options \<noteq> [] \<and> ''Reauthor Content'' \<notin> set (Actions options) then
        (create_perspective_sections e w processed_content (Perspective options),
         w @ [PerspectiveSections processed_content (Perspective options)])
      else (processed_content, w))"

fun translate_loop ::
  "env \<Rightarrow> string \<Rightarrow> string \<Rightarrow> string list \<Rightarrow> result list \<Rightarrow> world
     \<Rightarrow> (py_error + result list) \<times> world" where
  \<comment> \<open>\<open>for lang in languages\<close>; a \<open>None\<close> translation makes \<open>translated_content[:100]\<close>
      raise \<open>TypeError\<close>\<close>
  "translate_loop e title processed_content [] results w = (Inr results, w)"
| "translate_loop e title processed_content (lang # languages) results w =
     (case pu_translate_content e w processed_content lang of
        None \<Rightarrow> (Inl TypeError, w @ [PuTranslate processed_content lang])
      | Some translated_content \<Rightarrow>
          (let w1 = w @ [PuTranslate processed_content lang];
               docx_bytes = save_as_word e w1 translated_content;
               w2 = w1 @ [SaveAsWord translated_content]
           in translate_loop e title processed_content languages
                (results @ [(docx_bytes, title @ ''_'' @ lang, translated_content, lang)]) w2))"

definition translation_stage ::
  "env \<Rightarrow> string \<Rightarrow> options \<Rightarrow> string \<Rightarrow> world \<Rightarrow> (py_error + result list) \<times> world" where
  \<comment> \<open>Step 3: Translation\<close>
  "translation_stage e title options processed_content w =
     (if ''Translate'' \<in> set (Actions options) then
        translate_loop e title processed_content (Translation_Languages options) [] w
      else
        (let docx_bytes = save_as_word e w processed_content
         in (Inr [(docx_bytes, title, processed_content, ''Original'')],
             w @ [SaveAsWord processed_content])))"

definition process_article_async ::
  "env \<Rightarrow> string \<Rightarrow> string \<Rightarrow> options \<Rightarrow> string \<Rightarrow> string option \<Rightarrow> world
     \<Rightarrow> (py_error + result list) \<times> world" where
  "process_article_async e title content options selected_model template_content w =
     (let (processed_content, w1) =
            content_stage e title content options selected_model template_content w;
          (processed_content, w2) = perspective_stage e options processed_content w1
      in translation_stage e title options processed_content w2)"

subsection \<open>The batch orchestrator\<close>

definition operations_per_article :: "options \<Rightarrow> nat" where
  \<comment> \<open>the expression that \<open>process_multiple_articles_async\<close> writes out twice\<close>
  "operations_per_article options =
     length (Actions options)
       + (if ''Translate'' \<in> set (Actions options) then length (Translation_Languages options)
          else 0)"

definition total_operations :: "string list \<Rightarrow> options \<Rightarrow> nat" where
  "total_operations titles options = length titles * operations_per_article options"

fun batch_loop ::
  "env \<Rightarrow> options \<Rightarrow> string \<Rightarrow> string option \<Rightarrow> nat \<Rightarrow> (string \<times> string) list
     \<Rightarrow> result list \<Rightarrow> nat \<Rightarrow> world \<Rightarrow> (py_error + result list \<times> nat) \<times> world" where
  \<comment> \<open>\<open>for title, content in zip(titles, contents)\<close>, on the local variables
      \<open>all_results\<close> and \<open>completed_operations\<close>; the division raises when
      \<open>total_operations\<close> is 0\<close>
  "batch_loop e options selected_model template_content total_ops [] all_results completed w =
     (Inr (all_results, completed), w)"
| "batch_loop e options selected_model template_content total_ops ((title, content) # rest)
     all_results completed w =
     (case process_article_async e title content options selected_model template_content w of
        (Inl err, w1) \<Rightarrow> (Inl err, w1)
      | (Inr results, w1) \<Rightarrow>
          (let all_results = all_results @ results;
               completed = completed + operations_per_article options
           in if total_ops = 0 then (Inl ZeroDivisionError, w1)
              else batch_loop e options selected_model template_content total_ops rest
                     all_results completed
                     (w1 @ [Progress (of_nat completed / of_nat total_ops)])))"

definition process_multiple_articles_async ::
  "env \<Rightarrow> string list \<Rightarrow> string list \<Rightarrow> options \<Rightarrow> string \<Rightarrow> string option \<Rightarrow> world
     \<Rightarrow> (py_error + result list) \<times> world" where
  "process_multiple_articles_async e titles contents options selected_model template_content w =
     (case batch_loop e options selected_model template_content
             (total_operations titles options) (zip titles contents) [] 0 (w @ [Progress 0]) of
        (Inl err, w') \<Rightarrow> (Inl err, w')
      | (Inr (all_results, completed), w') \<Rightarrow> (Inr all_results, w'))"

subsection \<open>The presentation of the results\<close>

datatype payload = DocxData docx | ZipData "(string \<times> docx) list"
  \<comment> \<open>the \<open>data\<close> of a download button: one document, or the archive as its entries\<close>

datatype widget =
    Subheader string
  | Expander string
  | Markdown string
  | DownloadButton string payload string string  \<comment> \<open>label, data, file_name, mime\<close>
  | StError string

fun display_result :: "result \<Rightarrow> widget list" where
  \<comment> \<open>the body of the loop of \<open>display_results\<close>\<close>
  "display_result (docx_bytes, title, api_response, lang) =
     [Expander (title @ '' - '' @ lang),
      Markdown (''<div class=\"generated-content\">'' @ api_response @ ''</div>'')]
     @ (case docx_bytes of
          Some bytes \<Rightarrow>
            [DownloadButton (''Download '' @ title @ '' ('' @ lang @ '') as Word'') (DocxData bytes)
               (title @ ''_'' @ lang @ ''.docx'')
               ''application/vnd.openxmlformats-officedocument.wordprocessingml.document'']
        | None \<Rightarrow>
            [StError (''Failed to generate Word document for '' @ title @ '' ('' @ lang @ '')'')])"

fun zip_entries :: "result list \<Rightarrow> py_error + (string \<times> docx) list" where
  \<comment> \<open>the loop of \<open>create_zip_download\<close>: \<open>docx_bytes.getvalue()\<close> raises
      \<open>AttributeError\<close> on \<open>None\<close>\<close>
  "zip_entries [] = Inr []"
| "zip_entries ((docx_bytes, title, api_response, lang) # results) =
     (case docx_bytes of
        None \<Rightarrow> Inl AttributeError
      | Some bytes \<Rightarrow>
          (case zip_entries results of
             Inl err \<Rightarrow> Inl err
           | Inr entries \<Rightarrow> Inr ((title @ ''_'' @ lang @ ''.docx'', bytes) # entries)))"

definition create_zip_download :: "result list \<Rightarrow> (py_error + unit) \<times> widget list" where
  "create_zip_download results =
     (case zip_entries results of
        Inl err \<Rightarrow> (Inl err, [])
      | Inr entries \<Rightarrow>
          (Inr (), [DownloadButton ''Download All Articles as ZIP'' (ZipData entries)
                      ''kb_articles.zip'' ''application/zip'']))"

definition display_results :: "result list \<Rightarrow> (py_error + unit) \<times> widget list" where
  "display_results results =
     (let shown = Subheader ''Generated Articles'' # concat (map display_result results)
      in if length results > 1 then
           (case create_zip_download results of (r, zipped) \<Rightarrow> (r, shown @ zipped))
         else (Inr (), shown))"

subsection \<open>Two concrete environments\<close>

definition failing_env :: env where
  \<comment> \<open>every collaborator fails: the client and the translation return \<open>None\<close>, the
      exporter returns no document\<close>
  "failing_env =
     \<lparr>chat_completions_create = (\<lambda>w m p. None),
      create_perspective_sections = (\<lambda>w c ps. c),
      pu_translate_content = (\<lambda>w c l. None),
      save_as_word = (\<lambda>w t. None)\<rparr>"

definition stub_env :: env where
  \<comment> \<open>every collaborator succeeds, with fixed answers\<close>
  "stub_env =
     \<lparr>chat_completions_create = (\<lambda>w m p. Some ''# Article''),
      create_perspective_sections = (\<lambda>w c ps. c @ ''\<newline>## '' @ join ''\<newline>## '' ps),
      pu_translate_content = (\<lambda>w c l. Some (l @ '': '' @ c)),
      save_as_word = (\<lambda>w t. Some [80, 75])\<rparr>"

definition blank_env :: env where
  \<comment> \<open>a client that answers with blanks only\<close>
  "blank_env = stub_env\<lparr>chat_completions_create := (\<lambda>w m p. Some ''   '')\<rparr>"

subsection \<open>Predicates used in the statements\<close>

definition translation_event :: "event \<Rightarrow> bool" where
  \<comment> \<open>the events of the translation stage\<close>
  "translation_event ev =
     (case ev of PuTranslate c l \<Rightarrow> True | SaveAsWord t \<Rightarrow> True | _ \<Rightarrow> False)"

definition no_commentary_instruction :: string where
  \<comment> \<open>the words with which the prompts of \<open>app.py\<close> ask for the content alone\<close>
  "no_commentary_instruction = '', without any additional comments or questions''"

definition ends_with_instruction :: "string \<Rightarrow> bool" where
  \<comment> \<open>the prompt's final text is that instruction, as a closed sentence\<close>
  "ends_with_instruction prompt = suffix (no_commentary_instruction @ ''.'') prompt"

definition new_events :: "world \<Rightarrow> world \<Rightarrow> event list" where
  \<comment> \<open>the events that a call started on the trace \<open>w\<close> has appended, \<open>w'\<close> being the
      trace it returns\<close>
  "new_events w w' = drop (length w) w'"

definition content_events ::
  "string \<Rightarrow> string \<Rightarrow> options \<Rightarrow> string \<Rightarrow> string option \<Rightarrow> event list" where
  \<comment> \<open>the model calls of step 1, by the branch taken\<close>
  "content_events title content opts m tpl =
     (if ''Generate Content'' \<in> set (Actions opts)
      then [ChatCompletion m (generate_prompt title content (Perspective opts))]
      else if ''Reauthor Content'' \<in> set (Actions opts) \<or> ''Format to Template'' \<in> set (Actions opts)
      then [ChatCompletion m (reauthor_prompt content tpl (Perspective opts))]
      else [])"

definition result_labels :: "options \<Rightarrow> string \<Rightarrow> (string \<times> string) list" where
  \<comment> \<open>the title and language fields of the results of one article, in order\<close>
  "result_labels opts title =
     (if ''Translate'' \<in> set (Actions opts)
      then map (\<lambda>lang. (title @ ''_'' @ lang, lang)) (Translation_Languages opts)
      else [(title, ''Original'')])"

definition labels :: "result list \<Rightarrow> (string \<times> string) list" where
  "labels results = map (\<lambda>(docx_bytes, title, text, lang). (title, lang)) results"

section \<open>Facts about the model client and the stages\<close>

lemma send_to_openai_api_async_snd:
  "snd (send_to_openai_api_async e prompt m w) = w @ [ChatCompletion m prompt]"
  by (simp add: send_to_openai_api_async_def split: option.split)

lemma send_to_openai_api_async_fst:
  "fst (send_to_openai_api_async e prompt m w) = map_option strip (chat_completions_create e w m prompt)"
  by (simp add: send_to_openai_api_async_def split: option.split)

lemma generate_content_snd:
  "snd (generate_content e title content ps m w) = w @ [ChatCompletion m (generate_prompt title content ps)]"
  using send_to_openai_api_async_snd [of e "generate_prompt title content ps" m w]
  by (auto simp: generate_content_def split: prod.split option.split)

lemma reauthor_content_snd:
  "snd (reauthor_content e content tpl ps m w) = w @ [ChatCompletion m (reauthor_prompt content tpl ps)]"
  using send_to_openai_api_async_snd [of e "reauthor_prompt content tpl ps" m w]
  by (auto simp: reauthor_content_def split: prod.split option.split)

lemma strip_Nil: "strip [] = []"
  by (simp add: strip_def)

lemma strip_empty_iff: "strip s = [] \<longleftrightarrow> (\<forall>c \<in> set s. isspace c)"
proof -
  have "strip s = [] \<longleftrightarrow> (\<forall>c \<in> set (dropWhile isspace s). isspace c)"
    by (simp add: strip_def dropWhile_eq_Nil_conv)
  also have "\<dots> \<longleftrightarrow> dropWhile isspace s = []"
  proof
    assume all: "\<forall>c \<in> set (dropWhile isspace s). isspace c"
    show "dropWhile isspace s = []"
    proof (rule ccontr)
      assume ne: "dropWhile isspace s \<noteq> []"
      then have "\<not> isspace (hd (dropWhile isspace s))"
        by (rule hd_dropWhile)
      moreover from ne have "hd (dropWhile isspace s) \<in> set (dropWhile isspace s)"
        by (rule hd_in_set)
      ultimately show False
        using all by blast
    qed
  next
    assume "dropWhile isspace s = []"
    then show "\<forall>c \<in> set (dropWhile isspace s). isspace c"
      by (auto dest: set_dropWhileD)
  qed
  also have "\<dots> \<longleftrightarrow> (\<forall>c \<in> set s. isspace c)"
    by (simp add: dropWhile_eq_Nil_conv)
  finally show ?thesis .
qed

text \<open>
  The fallback of the two content calls: when the client fails, or answers with nothing
  but white space, the call returns the content it was given.
\<close>

lemma generate_content_fallback:
  assumes "chat_completions_create e w m (generate_prompt title content ps) = None
           \<or> (\<exists>t. chat_completions_create e w m (generate_prompt title content ps) = Some t
                  \<and> (\<forall>c \<in> set t. isspace c))"
  shows "fst (generate_content e title content ps m w) = content"
  using assms
  by (auto simp: generate_content_def send_to_openai_api_async_def strip_empty_iff [symmetric]
      strip_Nil)

lemma reauthor_content_fallback:
  assumes "chat_completions_create e w m (reauthor_prompt content tpl ps) = None
           \<or> (\<exists>t. chat_completions_create e w m (reauthor_prompt content tpl ps) = Some t
                  \<and> (\<forall>c \<in> set t. isspace c))"
  shows "fst (reauthor_content e content tpl ps m w) = content"
  using assms
  by (auto simp: reauthor_content_def send_to_openai_api_async_def strip_empty_iff [symmetric]
      strip_Nil)

lemma content_stage_snd:
  "snd (content_stage e title content opts m tpl w) =
     w @ (if ''Generate Content'' \<in> set (Actions opts)
          then [ChatCompletion m (generate_prompt title content (Perspective opts))]
          else if ''Reauthor Content'' \<in> set (Actions opts) \<or> ''Format to Template'' \<in> set (Actions opts)
          then [ChatCompletion m (reauthor_prompt content tpl (Perspective opts))]
          else [])"
  by (simp add: content_stage_def generate_content_snd reauthor_content_snd)

lemma translate_loop_snd:
  "\<exists>evs. snd (translate_loop e title pc langs rs w) = w @ evs \<and> (\<forall>ev \<in> set evs. translation_event ev)"
proof (induction langs arbitrary: rs w)
  case Nil
  then show ?case by simp
next
  case (Cons lang langs)
  show ?case
  proof (cases "pu_translate_content e w pc lang")
    case None
    then show ?thesis by (simp add: translation_event_def)
  next
    case (Some tc)
    let ?w2 = "w @ [PuTranslate pc lang, SaveAsWord tc]"
    obtain evs where evs: "snd (translate_loop e title pc langs
        (rs @ [(save_as_word e (w @ [PuTranslate pc lang]) tc, title @ ''_'' @ lang, tc, lang)]) ?w2) = ?w2 @ evs"
        "\<forall>ev \<in> set evs. translation_event ev"
      using Cons.IH by blast
    have "snd (translate_loop e title pc (lang # langs) rs w) = w @ ([PuTranslate pc lang, SaveAsWord tc] @ evs)"
      using Some evs(1) by (simp add: Let_def)
    moreover have "\<forall>ev \<in> set ([PuTranslate pc lang, SaveAsWord tc] @ evs). translation_event ev"
      using evs(2) by (simp add: translation_event_def)
    ultimately show ?thesis by blast
  qed
qed

lemma translate_loop_length:
  "fst (translate_loop e title pc langs rs w) = Inr rs' \<Longrightarrow> length rs' = length rs + length langs"
proof (induction langs arbitrary: rs w)
  case Nil
  then show ?case by simp
next
  case (Cons lang langs)
  then show ?case
    by (cases "pu_translate_content e w pc lang") (auto simp: Let_def dest: Cons.IH)
qed

lemma translate_loop_total:
  assumes "\<forall>w c l. pu_translate_content e w c l \<noteq> None"
  shows "\<exists>rs'. fst (translate_loop e title pc langs rs w) = Inr (rs @ rs')
           \<and> map (\<lambda>(d, t, x, l). (t, l)) rs' = map (\<lambda>l. (title @ ''_'' @ l, l)) langs"
proof (induction langs arbitrary: rs w)
  case Nil
  then show ?case by simp
next
  case (Cons lang langs)
  obtain tc where tc: "pu_translate_content e w pc lang = Some tc"
    using assms by (meson not_None_eq)
  let ?r = "(save_as_word e (w @ [PuTranslate pc lang]) tc, title @ ''_'' @ lang, tc, lang)"
  obtain rs' where rs': "fst (translate_loop e title pc langs (rs @ [?r]) (w @ [PuTranslate pc lang, SaveAsWord tc])) = Inr ((rs @ [?r]) @ rs')"
     "map (\<lambda>(d, t, x, l). (t, l)) rs' = map (\<lambda>l. (title @ ''_'' @ l, l)) langs"
    using Cons.IH by blast
  have "fst (translate_loop e title pc (lang # langs) rs w) = Inr (rs @ (?r # rs'))"
    using tc rs'(1) by (simp add: Let_def)
  moreover have "map (\<lambda>(d, t, x, l). (t, l)) (?r # rs') = map (\<lambda>l. (title @ ''_'' @ l, l)) (lang # langs)"
    using rs'(2) by simp
  ultimately show ?case by blast
qed

lemma new_events_append: "new_events w (w @ evs) = evs"
  by (simp add: new_events_def)

lemma perspective_stage_snd:
  "snd (perspective_stage e opts pc w) =
     w @ (if Perspective opts \<noteq> [] \<and> ''Reauthor Content'' \<notin> set (Actions opts)
          then [PerspectiveSections pc (Perspective opts)] else [])"
  by (simp add: perspective_stage_def)

lemma translation_stage_snd:
  "\<exists>evs. snd (translation_stage e title opts pc w) = w @ evs \<and> (\<forall>ev \<in> set evs. translation_event ev)"
proof (cases "''Translate'' \<in> set (Actions opts)")
  case True
  then show ?thesis
    using translate_loop_snd [of e title pc "Translation_Languages opts" "[]" w]
    by (simp add: translation_stage_def)
next
  case False
  then have "snd (translation_stage e title opts pc w) = w @ [SaveAsWord pc]"
    by (simp add: translation_stage_def)
  moreover have "\<forall>ev \<in> set [SaveAsWord pc]. translation_event ev"
    by (simp add: translation_event_def)
  ultimately show ?thesis by blast
qed

lemma process_article_async_trace:
  "\<exists>tevs. new_events w (snd (process_article_async e title content opts m tpl w)) =
            content_events title content opts m tpl
            @ (if Perspective opts \<noteq> [] \<and> ''Reauthor Content'' \<notin> set (Actions opts)
               then [PerspectiveSections (fst (content_stage e title content opts m tpl w)) (Perspective opts)]
               else [])
            @ tevs
          \<and> (\<forall>ev \<in> set tevs. translation_event ev)"
proof -
  obtain pc w1 where cs: "content_stage e title content opts m tpl w = (pc, w1)"
    by (cases "content_stage e title content opts m tpl w")
  obtain pc2 w2 where ps: "perspective_stage e opts pc w1 = (pc2, w2)"
    by (cases "perspective_stage e opts pc w1")
  have w1: "w1 = w @ content_events title content opts m tpl"
    using content_stage_snd [of e title content opts m tpl w] cs
    by (simp add: content_events_def)
  have w2: "w2 = w1 @ (if Perspective opts \<noteq> [] \<and> ''Reauthor Content'' \<notin> set (Actions opts)
          then [PerspectiveSections pc (Perspective opts)] else [])"
    using perspective_stage_snd [of e opts pc w1] ps by simp
  obtain tevs where tevs: "snd (translation_stage e title opts pc2 w2) = w2 @ tevs"
      "\<forall>ev \<in> set tevs. translation_event ev"
    using translation_stage_snd by blast
  have "process_article_async e title content opts m tpl w = translation_stage e title opts pc2 w2"
    by (simp add: process_article_async_def cs ps)
  then have "new_events w (snd (process_article_async e title content opts m tpl w)) =
      content_events title content opts m tpl
       @ (if Perspective opts \<noteq> [] \<and> ''Reauthor Content'' \<notin> set (Actions opts)
          then [PerspectiveSections pc (Perspective opts)] else [])
       @ tevs"
    using tevs(1) w1 w2 by (simp add: new_events_def)
  with tevs(2) cs show ?thesis by auto
qed

section \<open>Facts about the batch loop\<close>

lemma translate_loop_labels:
  "fst (translate_loop e title pc langs rs w) = Inr rs' \<Longrightarrow>
     labels rs' = labels rs @ map (\<lambda>lang. (title @ ''_'' @ lang, lang)) langs"
proof (induction langs arbitrary: rs w)
  case Nil
  then show ?case by simp
next
  case (Cons lang langs)
  show ?case
  proof (cases "pu_translate_content e w pc lang")
    case None
    with Cons.prems show ?thesis by simp
  next
    case (Some tc)
    let ?r = "(save_as_word e (w @ [PuTranslate pc lang]) tc, title @ ''_'' @ lang, tc, lang)"
    have "fst (translate_loop e title pc langs (rs @ [?r]) (w @ [PuTranslate pc lang, SaveAsWord tc])) = Inr rs'"
      using Cons.prems Some by (simp add: Let_def)
    then have "labels rs' = labels (rs @ [?r]) @ map (\<lambda>lang. (title @ ''_'' @ lang, lang)) langs"
      by (rule Cons.IH)
    then show ?thesis by (simp add: labels_def)
  qed
qed

lemma process_article_async_run:
  "process_article_async e title content opts m tpl w =
     translation_stage e title opts
       (fst (perspective_stage e opts (fst (content_stage e title content opts m tpl w))
               (snd (content_stage e title content opts m tpl w))))
       (snd (perspective_stage e opts (fst (content_stage e title content opts m tpl w))
               (snd (content_stage e title content opts m tpl w))))"
  by (simp add: process_article_async_def split: prod.split)

lemma process_article_async_labels:
  assumes "fst (process_article_async e title content opts m tpl w) = Inr rs"
  shows "labels rs = result_labels opts title"
proof (cases "''Translate'' \<in> set (Actions opts)")
  case True
  then show ?thesis
    using assms translate_loop_labels [of e title _ "Translation_Languages opts" "[]" _ rs]
    by (simp add: process_article_async_run translation_stage_def result_labels_def labels_def)
next
  case False
  then show ?thesis
    using assms
    by (auto simp: process_article_async_run translation_stage_def result_labels_def labels_def)
qed

lemma process_article_async_returns:
  assumes "''Translate'' \<in> set (Actions opts) \<longrightarrow> (\<forall>w' c l. pu_translate_content e w' c l \<noteq> None)"
  shows "\<exists>rs. fst (process_article_async e title content opts m tpl w) = Inr rs"
proof (cases "''Translate'' \<in> set (Actions opts)")
  case True
  with assms have "\<forall>w' c l. pu_translate_content e w' c l \<noteq> None" by blast
  from translate_loop_total [OF this]
  obtain rs where "fst (translate_loop e title
       (fst (perspective_stage e opts (fst (content_stage e title content opts m tpl w))
               (snd (content_stage e title content opts m tpl w))))
       (Translation_Languages opts) []
       (snd (perspective_stage e opts (fst (content_stage e title content opts m tpl w))
               (snd (content_stage e title content opts m tpl w))))) = Inr ([] @ rs)"
    by blast
  with True show ?thesis
    by (simp add: process_article_async_run translation_stage_def)
next
  case False
  then show ?thesis
    by (simp add: process_article_async_run translation_stage_def)
qed

lemma batch_loop_Cons:
  "batch_loop e opts m tpl T ((title, content) # ps) ar c w =
     (case fst (process_article_async e title content opts m tpl w) of
        Inl err \<Rightarrow> (Inl err, snd (process_article_async e title content opts m tpl w))
      | Inr rs \<Rightarrow>
          if T = 0 then (Inl ZeroDivisionError, snd (process_article_async e title content opts m tpl w))
          else batch_loop e opts m tpl T ps (ar @ rs) (c + operations_per_article opts)
                 (snd (process_article_async e title content opts m tpl w)
                    @ [Progress (of_nat (c + operations_per_article opts) / of_nat T)]))"
  by (simp add: Let_def split: prod.split sum.split)

lemma batch_loop_state:
  "fst (batch_loop e opts m tpl T ps ar c w) = Inr (ar', c') \<Longrightarrow>
     c' = c + length ps * operations_per_article opts
     \<and> labels ar' = labels ar @ concat (map (\<lambda>(title, content). result_labels opts title) ps)"
proof (induction ps arbitrary: ar c w)
  case Nil
  then show ?case by simp
next
  case (Cons p ps)
  obtain title content where p: "p = (title, content)" by (cases p)
  let ?run = "process_article_async e title content opts m tpl w"
  from Cons.prems obtain rs where rs: "fst ?run = Inr rs" and T: "T \<noteq> 0"
    unfolding p batch_loop_Cons by (cases "fst ?run") (auto split: if_splits)
  have "fst (batch_loop e opts m tpl T ps (ar @ rs) (c + operations_per_article opts)
                 (snd ?run @ [Progress (of_nat (c + operations_per_article opts) / of_nat T)]))
          = Inr (ar', c')"
    using Cons.prems rs T unfolding p batch_loop_Cons by simp
  from Cons.IH [OF this] process_article_async_labels [OF rs]
  show ?case by (simp add: p labels_def)
qed

lemma batch_loop_prefix:
  "fst (batch_loop e opts m tpl T ps ar c w) = Inr r \<Longrightarrow>
     \<exists>r'. fst (batch_loop e opts m tpl T (take k ps) ar c w) = Inr r'"
proof (induction ps arbitrary: ar c w k)
  case Nil
  then show ?case by simp
next
  case (Cons p ps)
  obtain title content where p: "p = (title, content)" by (cases p)
  let ?run = "process_article_async e title content opts m tpl w"
  from Cons.prems obtain rs where rs: "fst ?run = Inr rs" and T: "T \<noteq> 0"
    unfolding p batch_loop_Cons by (cases "fst ?run") (auto split: if_splits)
  show ?case
  proof (cases k)
    case 0
    then show ?thesis by simp
  next
    case (Suc j)
    have "fst (batch_loop e opts m tpl T ps (ar @ rs) (c + operations_per_article opts)
                 (snd ?run @ [Progress (of_nat (c + operations_per_article opts) / of_nat T)]))
          = Inr r"
      using Cons.prems rs T unfolding p batch_loop_Cons by simp
    from Cons.IH [OF this, of j] show ?thesis
      unfolding Suc p take_Suc_Cons batch_loop_Cons using rs T by simp
  qed
qed

lemma batch_loop_returns:
  assumes "''Translate'' \<in> set (Actions opts) \<longrightarrow> (\<forall>w' c l. pu_translate_content e w' c l \<noteq> None)"
    and "ps = [] \<or> T \<noteq> 0"
  shows "\<exists>r. fst (batch_loop e opts m tpl T ps ar c w) = Inr r"
  using assms(2)
proof (induction ps arbitrary: ar c w)
  case Nil
  then show ?case by simp
next
  case (Cons p ps)
  obtain title content where p: "p = (title, content)" by (cases p)
  let ?run = "process_article_async e title content opts m tpl w"
  obtain rs where rs: "fst ?run = Inr rs"
    using process_article_async_returns [OF assms(1)] by blast
  from Cons.prems have T: "T \<noteq> 0" by simp
  then have "ps = [] \<or> T \<noteq> 0" by simp
  from Cons.IH [OF this] show ?case
    unfolding p batch_loop_Cons using rs T by simp
qed

lemma process_multiple_articles_async_fst:
  "fst (process_multiple_articles_async e titles contents opts m tpl w) =
     (case fst (batch_loop e opts m tpl (total_operations titles opts) (zip titles contents)
                  [] 0 (w @ [Progress 0])) of
        Inl err \<Rightarrow> Inl err
      | Inr (all_results, completed) \<Rightarrow> Inr all_results)"
  by (simp add: process_multiple_articles_async_def split: prod.split sum.split)

lemma zip_by_position:
  "zip xs ys = map (\<lambda>i. (xs ! i, ys ! i)) [0..<min (length xs) (length ys)]"
  by (rule nth_equalityI) simp_all

lemma process_article_async_extends:
  "\<exists>evs. snd (process_article_async e title content opts m tpl w) = w @ evs
     \<and> (\<forall>q. Progress q \<notin> set evs)"
proof -
  obtain pc w1 where cs: "content_stage e title content opts m tpl w = (pc, w1)"
    by (cases "content_stage e title content opts m tpl w")
  obtain pc2 w2 where ps: "perspective_stage e opts pc w1 = (pc2, w2)"
    by (cases "perspective_stage e opts pc w1")
  let ?pevs = "if Perspective opts \<noteq> [] \<and> ''Reauthor Content'' \<notin> set (Actions opts)
          then [PerspectiveSections pc (Perspective opts)] else []"
  have w1: "w1 = w @ content_events title content opts m tpl"
    using content_stage_snd [of e title content opts m tpl w] cs
    by (simp add: content_events_def)
  have w2: "w2 = w1 @ ?pevs"
    using perspective_stage_snd [of e opts pc w1] ps by simp
  obtain tevs where tevs: "snd (translation_stage e title opts pc2 w2) = w2 @ tevs"
      "\<forall>ev \<in> set tevs. translation_event ev"
    using translation_stage_snd by blast
  have "process_article_async e title content opts m tpl w = translation_stage e title opts pc2 w2"
    by (simp add: process_article_async_def cs ps)
  then have "snd (process_article_async e title content opts m tpl w)
      = w @ (content_events title content opts m tpl @ ?pevs @ tevs)"
    using tevs(1) w1 w2 by simp
  moreover have "Progress q \<notin> set (content_events title content opts m tpl @ ?pevs @ tevs)" for q
    using tevs(2) by (auto simp: content_events_def translation_event_def)
  ultimately show ?thesis
    by blast
qed

lemma batch_loop_progress:
  "c + length ps * operations_per_article opts \<le> T \<Longrightarrow>
     \<exists>evs. snd (batch_loop e opts m tpl T ps ar c w) = w @ evs
       \<and> (\<forall>q. Progress q \<in> set evs \<longrightarrow> 0 \<le> q \<and> q \<le> 1)"
proof (induction ps arbitrary: ar c w)
  case Nil
  then show ?case by simp
next
  case (Cons p ps)
  obtain title content where p: "p = (title, content)" by (cases p)
  let ?run = "process_article_async e title content opts m tpl w"
  let ?c = "c + operations_per_article opts"
  obtain evs where evs: "snd ?run = w @ evs" "\<forall>q. Progress q \<notin> set evs"
    using process_article_async_extends by blast
  show ?case
  proof (cases "fst ?run")
    case (Inl err)
    then show ?thesis
      unfolding p batch_loop_Cons using evs by auto
  next
    case (Inr rs)
    show ?thesis
    proof (cases "T = 0")
      case True
      then show ?thesis
        unfolding p batch_loop_Cons using evs Inr by auto
    next
      case False
      from Cons.prems have le: "?c + length ps * operations_per_article opts \<le> T"
        by simp
      then have "?c \<le> T"
        by simp
      then have q: "0 \<le> (of_nat ?c / of_nat T :: rat) \<and> (of_nat ?c / of_nat T :: rat) \<le> 1"
        using False by (simp add: divide_le_eq_1)
      let ?w' = "snd ?run @ [Progress (of_nat ?c / of_nat T)]"
      from Cons.IH [OF le, of "ar @ rs" ?w']
      obtain evs' where evs': "snd (batch_loop e opts m tpl T ps (ar @ rs) ?c ?w') = ?w' @ evs'"
        "\<forall>q. Progress q \<in> set evs' \<longrightarrow> 0 \<le> q \<and> q \<le> 1"
        by blast
      have "snd (batch_loop e opts m tpl T (p # ps) ar c w)
          = w @ (evs @ [Progress (of_nat ?c / of_nat T)] @ evs')"
        unfolding p batch_loop_Cons using Inr False evs'(1) evs(1) by simp
      moreover have "\<forall>r. Progress r \<in> set (evs @ [Progress (of_nat ?c / of_nat T)] @ evs')
          \<longrightarrow> 0 \<le> r \<and> r \<le> 1"
        using evs(2) evs'(2) q by auto
      ultimately show ?thesis
        by blast
    qed
  qed
qed

text \<open>
  Every value handed to the progress bar lies between 0 and 1, the range that
  \<open>st.progress\<close> accepts: the bar itself never rejects an update.
\<close>

lemma progress_within_unit_interval:
  assumes "Progress q \<in> set (new_events w
             (snd (process_multiple_articles_async e titles contents opts m tpl w)))"
  shows "0 \<le> q \<and> q \<le> 1"
proof -
  let ?T = "total_operations titles opts"
  have "length (zip titles contents) * operations_per_article opts \<le> ?T"
    unfolding total_operations_def by (rule mult_le_mono1) simp
  then have "0 + length (zip titles contents) * operations_per_article opts \<le> ?T"
    by simp
  from batch_loop_progress [OF this, of e m tpl "[]" "w @ [Progress 0]"]
  obtain evs where evs: "snd (batch_loop e opts m tpl ?T (zip titles contents) [] 0 (w @ [Progress 0]))
        = (w @ [Progress 0]) @ evs"
      "\<forall>q. Progress q \<in> set evs \<longrightarrow> 0 \<le> q \<and> q \<le> 1"
    by blast
  have "snd (process_multiple_articles_async e titles contents opts m tpl w)
      = snd (batch_loop e opts m tpl ?T (zip titles contents) [] 0 (w @ [Progress 0]))"
    by (simp add: process_multiple_articles_async_def split: prod.split sum.split)
  then have "new_events w (snd (process_multiple_articles_async e titles contents opts m tpl w))
      = Progress 0 # evs"
    using evs(1) by (simp add: new_events_def)
  with assms evs(2) show ?thesis
    by auto
qed

section \<open>The claims of the specification\<close>

text \<open>
  Claim C1, as stated, promises exactly one result when Translate is requested with an empty
  language list. The loop over the languages then runs zero times and the \<open>else\<close> branch
  that appends the \<open>Original\<close> result is not taken: the pipeline returns no result.
\<close>

theorem translate_without_languages_yields_no_result:
  "fst (process_article_async stub_env ''Chocolate Cake'' ''write a recipe for chocolate cake''
          \<lparr>Actions = [''Generate Content'', ''Translate''], Perspective = [],
           Translation_Languages = []\<rparr> ''gpt'' None []) = Inr []"
  by (simp add: process_article_async_def content_stage_def perspective_stage_def
      translation_stage_def split: prod.split)

text \<open>
  Claim C1, amended: without Translate the pipeline returns exactly one result, tagged
  \<open>Original\<close> and carrying the article's title; with Translate, every normal return has
  exactly one result per entry of the language list (none for the empty list), and the
  pipeline does return normally, with the results tagged by the languages in order, whenever
  \<open>prompt_utils.translate_content\<close> never returns \<open>None\<close>.
\<close>

theorem process_article_async_result_count:
  "(''Translate'' \<notin> set (Actions opts) \<longrightarrow>
      (\<exists>docx text. fst (process_article_async e title content opts m tpl w)
                      = Inr [(docx, title, text, ''Original'')]))
   \<and> (''Translate'' \<in> set (Actions opts) \<longrightarrow>
        (\<forall>rs. fst (process_article_async e title content opts m tpl w) = Inr rs \<longrightarrow>
              length rs = length (Translation_Languages opts)))
   \<and> (''Translate'' \<in> set (Actions opts) \<and> (\<forall>w' c l. pu_translate_content e w' c l \<noteq> None) \<longrightarrow>
        (\<exists>rs. fst (process_article_async e title content opts m tpl w) = Inr rs
              \<and> length rs = length (Translation_Languages opts)
              \<and> map (\<lambda>(d, t, x, l). l) rs = Translation_Languages opts))"
proof -
  obtain pc w1 where cs: "content_stage e title content opts m tpl w = (pc, w1)"
    by (cases "content_stage e title content opts m tpl w")
  obtain pc2 w2 where ps: "perspective_stage e opts pc w1 = (pc2, w2)"
    by (cases "perspective_stage e opts pc w1")
  have run: "process_article_async e title content opts m tpl w = translation_stage e title opts pc2 w2"
    by (simp add: process_article_async_def cs ps)
  have a: "\<exists>docx text. fst (process_article_async e title content opts m tpl w)
                      = Inr [(docx, title, text, ''Original'')]"
    if "''Translate'' \<notin> set (Actions opts)"
    using that by (simp add: run translation_stage_def)
  have b: "length rs = length (Translation_Languages opts)"
    if "''Translate'' \<in> set (Actions opts)"
      and "fst (process_article_async e title content opts m tpl w) = Inr rs" for rs
    using that translate_loop_length [of e title pc2 "Translation_Languages opts" "[]" w2 rs]
    by (simp add: run translation_stage_def)
  have c: "\<exists>rs. fst (process_article_async e title content opts m tpl w) = Inr rs
              \<and> length rs = length (Translation_Languages opts)
              \<and> map (\<lambda>(d, t, x, l). l) rs = Translation_Languages opts"
    if tr: "''Translate'' \<in> set (Actions opts)" and tot: "\<forall>w' c l. pu_translate_content e w' c l \<noteq> None"
  proof -
    obtain rs where rs: "fst (translate_loop e title pc2 (Translation_Languages opts) [] w2) = Inr ([] @ rs)"
      "map (\<lambda>(d, t, x, l). (t, l)) rs = map (\<lambda>l. (title @ ''_'' @ l, l)) (Translation_Languages opts)"
      using translate_loop_total [OF tot] by blast
    have "map snd (map (\<lambda>(d, t, x, l). (t, l)) rs) = map (\<lambda>(d, t, x, l). l) rs"
      by (simp add: case_prod_beta comp_def)
    then have "map (\<lambda>(d, t, x, l). l) rs = Translation_Languages opts"
      unfolding rs(2) by (simp add: comp_def)
    moreover from this have "length rs = length (Translation_Languages opts)"
      by (metis length_map)
    ultimately show ?thesis
      using rs(1) tr by (simp add: run translation_stage_def)
  qed
  from a b c show ?thesis by blast
qed

text \<open>
  Witness for C1: one article without Translate under the failing environment, and the
  same article translated to French and Spanish under the succeeding one.
\<close>

theorem process_article_async_result_count_witness:
  "(\<exists>docx text. fst (process_article_async failing_env ''Chocolate Cake'' ''notes''
        \<lparr>Actions = [''Generate Content''], Perspective = [], Translation_Languages = []\<rparr>
        ''gpt'' None []) = Inr [(docx, ''Chocolate Cake'', text, ''Original'')])
   \<and> (\<exists>rs. fst (process_article_async stub_env ''Chocolate Cake'' ''notes''
        \<lparr>Actions = [''Generate Content'', ''Translate''], Perspective = [],
         Translation_Languages = [''French'', ''Spanish'']\<rparr> ''gpt'' None []) = Inr rs
        \<and> length rs = 2 \<and> map (\<lambda>(d, t, x, l). l) rs = [''French'', ''Spanish''])"
proof -
  have total: "\<forall>w' c l. pu_translate_content stub_env w' c l \<noteq> None"
    by (simp add: stub_env_def)
  show ?thesis
    using total
      process_article_async_result_count [of "\<lparr>Actions = [''Generate Content''], Perspective = [],
          Translation_Languages = []\<rparr>" failing_env "''Chocolate Cake''" "''notes''" "''gpt''" None "[]"]
      process_article_async_result_count [of "\<lparr>Actions = [''Generate Content'', ''Translate''],
          Perspective = [], Translation_Languages = [''French'', ''Spanish'']\<rparr>" stub_env
          "''Chocolate Cake''" "''notes''" "''gpt''" None "[]"]
    by (simp add: numeral_2_eq_2)
qed

text \<open>
  Claim C3 (every stage keeps its input when the client fails or answers with blanks) holds
  for generation and reauthoring (\<open>generate_content_fallback\<close>,
  \<open>reauthor_content_fallback\<close>) and fails for translation: \<open>translate_content\<close> hands
  on what the client returned. On a failure its output is \<open>None\<close>, on a blank answer it
  is the empty string. The pipeline calls the helper of the same name in
  \<open>prompt_utils\<close>; when that helper returns \<open>None\<close> as this one does, the slice that
  follows the call raises \<open>TypeError\<close>.
\<close>

theorem translate_content_has_no_fallback:
  "fst (translate_content failing_env ''Hello'' ''French'' ''gpt'' []) = None
   \<and> fst (translate_content blank_env ''Hello'' ''French'' ''gpt'' []) = Some []
   \<and> fst (process_article_async failing_env ''Cake'' ''Hello''
            \<lparr>Actions = [''Translate''], Perspective = [], Translation_Languages = [''French'']\<rparr>
            ''gpt'' None []) = Inl TypeError"
  by (simp add: translate_content_def send_to_openai_api_async_def failing_env_def blank_env_def
      stub_env_def strip_def isspace_def process_article_async_def content_stage_def
      perspective_stage_def translation_stage_def)

text \<open>
  Claim C4 (no input and no failure aborts the batch) fails on an empty action set with one
  article, even when every collaborator succeeds: \<open>total_operations\<close> is 0 and the
  progress update after the first article divides by it. With every collaborator failing
  the batch itself returns its results, each with no document; showing these results then
  raises \<open>AttributeError\<close> in \<open>create_zip_download\<close>, which reads the document of every
  result without the test for \<open>None\<close> that \<open>display_results\<close> makes.
\<close>

theorem empty_action_set_aborts_batch:
  "fst (process_multiple_articles_async stub_env [''A''] [''x'']
          \<lparr>Actions = [], Perspective = [], Translation_Languages = []\<rparr> ''gpt'' None [])
     = Inl ZeroDivisionError
   \<and> fst (process_multiple_articles_async failing_env [''A'', ''B''] [''x'', ''y'']
          \<lparr>Actions = [''Generate Content''], Perspective = [], Translation_Languages = []\<rparr>
          ''gpt'' None [])
     = Inr [(None, ''A'', ''x'', ''Original''), (None, ''B'', ''y'', ''Original'')]
   \<and> fst (display_results [(None, ''A'', ''x'', ''Original''), (None, ''B'', ''y'', ''Original'')])
     = Inl AttributeError"
  by (simp add: process_multiple_articles_async_def total_operations_def operations_per_article_def
      process_article_async_def content_stage_def perspective_stage_def translation_stage_def
      generate_content_def send_to_openai_api_async_def failing_env_def
      display_results_def create_zip_download_def)

text \<open>
  Claim C5: the content stage makes at most one model call, chosen by fixed precedence.
  With Generate Content in the action set it sends the Generate prompt and its content is
  that of \<open>generate_content\<close>, whatever else is selected; otherwise, with Reauthor Content
  or Format to Template, it sends the prompt of \<open>reauthor_content\<close>; otherwise content
  and trace are unchanged. The reauthor prompt contains the template, between
  \<open>Template:\<close> and \<open>Content to reauthor:\<close>, when a template is supplied (one that is
  neither \<open>None\<close> nor empty, the test the code makes), and is the prompt of the call
  without template when none is.
\<close>

theorem content_stage_precedence:
  "(''Generate Content'' \<in> set (Actions opts) \<longrightarrow>
      fst (content_stage e title content opts m tpl w)
        = fst (generate_content e title content (Perspective opts) m w)
      \<and> new_events w (snd (content_stage e title content opts m tpl w))
        = [ChatCompletion m (generate_prompt title content (Perspective opts))])
   \<and> (''Generate Content'' \<notin> set (Actions opts)
        \<and> (''Reauthor Content'' \<in> set (Actions opts) \<or> ''Format to Template'' \<in> set (Actions opts)) \<longrightarrow>
      fst (content_stage e title content opts m tpl w)
        = fst (reauthor_content e content tpl (Perspective opts) m w)
      \<and> new_events w (snd (content_stage e title content opts m tpl w))
        = [ChatCompletion m (reauthor_prompt content tpl (Perspective opts))])
   \<and> (''Generate Content'' \<notin> set (Actions opts) \<and> ''Reauthor Content'' \<notin> set (Actions opts)
        \<and> ''Format to Template'' \<notin> set (Actions opts) \<longrightarrow>
      content_stage e title content opts m tpl w = (content, w))
   \<and> (truthy tpl \<longrightarrow>
        sublist (''Template:\<newline>'' @ the tpl @ ''\<newline>\<newline>Content to reauthor:'')
          (reauthor_prompt content tpl (Perspective opts)))
   \<and> (\<not> truthy tpl \<longrightarrow>
        reauthor_prompt content tpl (Perspective opts) = reauthor_prompt content None (Perspective opts))
   \<and> length (new_events w (snd (content_stage e title content opts m tpl w))) \<le> 1"
proof -
  have ev: "new_events w (snd (content_stage e title content opts m tpl w))
      = content_events title content opts m tpl"
    by (simp add: content_stage_snd content_events_def new_events_def)
  have incl: "sublist (''Template:\<newline>'' @ the tpl @ ''\<newline>\<newline>Content to reauthor:'')
          (reauthor_prompt content tpl (Perspective opts))" if "truthy tpl"
  proof -
    let ?mid = "''Template:\<newline>'' @ the tpl @ ''\<newline>\<newline>Content to reauthor:''"
    have "\<exists>pre post. reauthor_prompt content tpl (Perspective opts) = pre @ ?mid @ post"
    proof (cases "strip content = []")
      case True
      have "reauthor_prompt content tpl (Perspective opts) =
        (''Generate a knowledge base article based on the following template:, using the provided template as a guide for formatting:\<newline>\<newline>'')
        @ ?mid @ (''\<newline>\<newline>'' @ content @ ''\<newline>\<newline>'' @ perspectives_clause (Perspective opts)
       @ ''Provide the reauthored content directly, without any additional comments or questions.'')"
        using that True by (simp add: reauthor_prompt_def)
      then show ?thesis by blast
    next
      case False
      have "reauthor_prompt content tpl (Perspective opts) =
        (''Reauthor the following content, using the provided template as a guide for formatting:\<newline>\<newline>'')
        @ ?mid @ (''\<newline>\<newline>'' @ content @ ''\<newline>\<newline>'' @ perspectives_clause (Perspective opts)
       @ ''Provide the reauthored content directly, without any additional comments or questions.'')"
        using that False by (simp add: reauthor_prompt_def)
      then show ?thesis by blast
    qed
    then show ?thesis by (simp add: sublist_def)
  qed
  have excl: "reauthor_prompt content tpl (Perspective opts) = reauthor_prompt content None (Perspective opts)"
    if "\<not> truthy tpl"
    using that by (simp add: reauthor_prompt_def truthy_def)
  have one: "length (content_events title content opts m tpl) \<le> 1"
    by (simp add: content_events_def)
  show ?thesis
    unfolding ev using incl excl one
    by (simp add: content_stage_def content_events_def)
qed

text \<open>
  Witness for C5: all three content actions together (Generate wins), Format to Template
  alone with a template, an empty template, and an action set with no content action.
\<close>

theorem content_stage_precedence_witness:
  "new_events [] (snd (content_stage stub_env ''T'' ''c''
       \<lparr>Actions = [''Reauthor Content'', ''Format to Template'', ''Generate Content''],
        Perspective = [], Translation_Languages = []\<rparr> ''gpt'' (Some ''# Tpl'') []))
     = [ChatCompletion ''gpt'' (generate_prompt ''T'' ''c'' [])]
   \<and> new_events [] (snd (content_stage stub_env ''T'' ''c''
       \<lparr>Actions = [''Format to Template''],
        Perspective = [], Translation_Languages = []\<rparr> ''gpt'' (Some ''# Tpl'') []))
     = [ChatCompletion ''gpt'' (reauthor_prompt ''c'' (Some ''# Tpl'') [])]
   \<and> sublist ''Template:\<newline># Tpl\<newline>\<newline>Content to reauthor:'' (reauthor_prompt ''c'' (Some ''# Tpl'') [])
   \<and> reauthor_prompt ''c'' (Some []) [] = reauthor_prompt ''c'' None []
   \<and> content_stage stub_env ''T'' ''c''
       \<lparr>Actions = [''Translate''], Perspective = [], Translation_Languages = []\<rparr> ''gpt'' None []
     = (''c'', [])"
  using content_stage_precedence [of "\<lparr>Actions = [''Reauthor Content'', ''Format to Template'', ''Generate Content''],
        Perspective = [], Translation_Languages = []\<rparr>" stub_env "''T''" "''c''" "''gpt''" "Some ''# Tpl''" "[]"]
    content_stage_precedence [of "\<lparr>Actions = [''Format to Template''],
        Perspective = [], Translation_Languages = []\<rparr>" stub_env "''T''" "''c''" "''gpt''" "Some ''# Tpl''" "[]"]
    content_stage_precedence [of "\<lparr>Actions = [''Translate''],
        Perspective = [], Translation_Languages = []\<rparr>" stub_env "''T''" "''c''" "''gpt''" "None" "[]"]
    content_stage_precedence [of "\<lparr>Actions = [''Translate''],
        Perspective = [], Translation_Languages = []\<rparr>" stub_env "''T''" "''c''" "''gpt''" "Some []" "[]"]
  by (simp add: truthy_def)

text \<open>
  Claim C6: over a whole run of the pipeline, \<open>create_perspective_sections\<close> is called if
  and only if the perspective list is non-empty and Reauthor Content is not in the action
  set. When it is called, it is called on the content that left the content stage, and its
  output is the content handed to the translation stage. So it is skipped whenever the
  Reauthor Content action is selected, and it runs on the generated content after a
  Generate pass. (The test reads the action set: a \<open>reauthor_content\<close> call made for
  Format to Template alone does not skip it.)
\<close>

theorem perspective_stage_applied_iff:
  "((\<exists>c ps. PerspectiveSections c ps
        \<in> set (new_events w (snd (process_article_async e title content opts m tpl w))))
      \<longleftrightarrow> (Perspective opts \<noteq> [] \<and> ''Reauthor Content'' \<notin> set (Actions opts)))
   \<and> (Perspective opts \<noteq> [] \<and> ''Reauthor Content'' \<notin> set (Actions opts) \<longrightarrow>
        PerspectiveSections (fst (content_stage e title content opts m tpl w)) (Perspective opts)
          \<in> set (new_events w (snd (process_article_async e title content opts m tpl w))))
   \<and> (''Reauthor Content'' \<in> set (Actions opts) \<longrightarrow>
        (\<forall>c ps. PerspectiveSections c ps
           \<notin> set (new_events w (snd (process_article_async e title content opts m tpl w)))))
   \<and> (''Generate Content'' \<in> set (Actions opts) \<and> ''Reauthor Content'' \<notin> set (Actions opts)
        \<and> Perspective opts \<noteq> [] \<longrightarrow>
        PerspectiveSections (fst (generate_content e title content (Perspective opts) m w))
            (Perspective opts)
          \<in> set (new_events w (snd (process_article_async e title content opts m tpl w))))
   \<and> process_article_async e title content opts m tpl w =
       (case content_stage e title content opts m tpl w of
          (pc, w1) \<Rightarrow>
            if Perspective opts \<noteq> [] \<and> ''Reauthor Content'' \<notin> set (Actions opts)
            then translation_stage e title opts
                   (create_perspective_sections e w1 pc (Perspective opts))
                   (w1 @ [PerspectiveSections pc (Perspective opts)])
            else translation_stage e title opts pc w1)"
proof -
  obtain tevs where tr: "new_events w (snd (process_article_async e title content opts m tpl w)) =
            content_events title content opts m tpl
            @ (if Perspective opts \<noteq> [] \<and> ''Reauthor Content'' \<notin> set (Actions opts)
               then [PerspectiveSections (fst (content_stage e title content opts m tpl w)) (Perspective opts)]
               else [])
            @ tevs"
     and tevs: "\<forall>ev \<in> set tevs. translation_event ev"
    using process_article_async_trace by blast
  have no_c: "PerspectiveSections c ps \<notin> set (content_events title content opts m tpl)" for c ps
    by (simp add: content_events_def)
  have no_t: "PerspectiveSections c ps \<notin> set tevs" for c ps
    using tevs by (auto simp: translation_event_def)
  have gen: "fst (content_stage e title content opts m tpl w)
      = fst (generate_content e title content (Perspective opts) m w)"
    if "''Generate Content'' \<in> set (Actions opts)"
    using that by (simp add: content_stage_def)
  have run: "process_article_async e title content opts m tpl w =
       (case content_stage e title content opts m tpl w of
          (pc, w1) \<Rightarrow>
            if Perspective opts \<noteq> [] \<and> ''Reauthor Content'' \<notin> set (Actions opts)
            then translation_stage e title opts
                   (create_perspective_sections e w1 pc (Perspective opts))
                   (w1 @ [PerspectiveSections pc (Perspective opts)])
            else translation_stage e title opts pc w1)"
    by (simp add: process_article_async_def perspective_stage_def split: prod.split)
  have applied_iff: "(\<exists>c ps. PerspectiveSections c ps
        \<in> set (new_events w (snd (process_article_async e title content opts m tpl w))))
      \<longleftrightarrow> (Perspective opts \<noteq> [] \<and> ''Reauthor Content'' \<notin> set (Actions opts))"
    unfolding tr using no_c no_t by auto
  have applied_to: "Perspective opts \<noteq> [] \<and> ''Reauthor Content'' \<notin> set (Actions opts) \<longrightarrow>
        PerspectiveSections (fst (content_stage e title content opts m tpl w)) (Perspective opts)
          \<in> set (new_events w (snd (process_article_async e title content opts m tpl w)))"
    unfolding tr by simp
  have skipped: "''Reauthor Content'' \<in> set (Actions opts) \<longrightarrow>
        (\<forall>c ps. PerspectiveSections c ps
           \<notin> set (new_events w (snd (process_article_async e title content opts m tpl w))))"
    using applied_iff by blast
  have after_generate: "''Generate Content'' \<in> set (Actions opts) \<and> ''Reauthor Content'' \<notin> set (Actions opts)
        \<and> Perspective opts \<noteq> [] \<longrightarrow>
        PerspectiveSections (fst (generate_content e title content (Perspective opts) m w))
            (Perspective opts)
          \<in> set (new_events w (snd (process_article_async e title content opts m tpl w)))"
    using applied_to gen by auto
  show ?thesis
    by (rule conjI [OF applied_iff conjI [OF applied_to conjI [OF skipped conjI [OF after_generate run]]]])
qed

text \<open>
  Witness for C6: two perspectives, once with Generate Content (the sectioning is applied
  to the generated article) and once with Reauthor Content (it is not applied).
\<close>

theorem perspective_stage_applied_iff_witness:
  "PerspectiveSections ''# Article'' [''Beginner'', ''Expert'']
     \<in> set (new_events [] (snd (process_article_async stub_env ''T'' ''c''
          \<lparr>Actions = [''Generate Content''], Perspective = [''Beginner'', ''Expert''],
           Translation_Languages = []\<rparr> ''gpt'' None [])))
   \<and> (\<forall>c ps. PerspectiveSections c ps
        \<notin> set (new_events [] (snd (process_article_async stub_env ''T'' ''c''
          \<lparr>Actions = [''Reauthor Content''], Perspective = [''Beginner'', ''Expert''],
           Translation_Languages = []\<rparr> ''gpt'' None []))))"
proof -
  let ?gen = "\<lparr>Actions = [''Generate Content''], Perspective = [''Beginner'', ''Expert''],
           Translation_Languages = []\<rparr>"
  let ?rea = "\<lparr>Actions = [''Reauthor Content''], Perspective = [''Beginner'', ''Expert''],
           Translation_Languages = []\<rparr>"
  have g: "fst (generate_content stub_env ''T'' ''c'' [''Beginner'', ''Expert''] ''gpt'' []) = ''# Article''"
    by (simp add: generate_content_def send_to_openai_api_async_def stub_env_def strip_def isspace_def)
  have generated: "PerspectiveSections ''# Article'' [''Beginner'', ''Expert'']
     \<in> set (new_events [] (snd (process_article_async stub_env ''T'' ''c'' ?gen ''gpt'' None [])))"
    using g perspective_stage_applied_iff [of "[]" stub_env "''T''" "''c''" ?gen "''gpt''" None,
        THEN conjunct2, THEN conjunct2, THEN conjunct2, THEN conjunct1]
    by simp
  have reauthored: "\<forall>c ps. PerspectiveSections c ps
        \<notin> set (new_events [] (snd (process_article_async stub_env ''T'' ''c'' ?rea ''gpt'' None [])))"
    using perspective_stage_applied_iff [of "[]" stub_env "''T''" "''c''" ?rea "''gpt''" None,
        THEN conjunct2, THEN conjunct2, THEN conjunct1]
    by simp
  from generated reauthored show ?thesis
    by (rule conjI)
qed

text \<open>
  Claim C9: with Format to Template and without Generate Content, the content stage is the
  call of \<open>reauthor_content\<close> and sends its prompt, the very one sent for Reauthor Content
  alone: the action adds no instruction of its own, the template entering only through the
  template clause of \<open>reauthor_content\<close>. And for every input, no model call of the
  pipeline carries a prompt of \<open>format_to_template\<close>.
\<close>

theorem format_to_template_never_invoked:
  "(''Format to Template'' \<in> set (Actions opts) \<and> ''Generate Content'' \<notin> set (Actions opts) \<longrightarrow>
      content_stage e title content opts m tpl w
        = reauthor_content e content tpl (Perspective opts) m w
      \<and> new_events w (snd (content_stage e title content opts m tpl w))
        = [ChatCompletion m (reauthor_prompt content tpl (Perspective opts))]
      \<and> content_stage e title content opts m tpl w
        = content_stage e title content (opts\<lparr>Actions := [''Reauthor Content'']\<rparr>) m tpl w)
   \<and> (\<forall>m' c t. ChatCompletion m' (format_prompt c t)
         \<notin> set (new_events w (snd (process_article_async e title content opts m tpl w))))"
proof -
  have a: "content_stage e title content opts m tpl w
        = reauthor_content e content tpl (Perspective opts) m w
      \<and> new_events w (snd (content_stage e title content opts m tpl w))
        = [ChatCompletion m (reauthor_prompt content tpl (Perspective opts))]
      \<and> content_stage e title content opts m tpl w
        = content_stage e title content (opts\<lparr>Actions := [''Reauthor Content'']\<rparr>) m tpl w"
    if "''Format to Template'' \<in> set (Actions opts)" "''Generate Content'' \<notin> set (Actions opts)"
    using that by (simp add: content_stage_def reauthor_content_snd new_events_def)
  obtain tevs where tr: "new_events w (snd (process_article_async e title content opts m tpl w)) =
            content_events title content opts m tpl
            @ (if Perspective opts \<noteq> [] \<and> ''Reauthor Content'' \<notin> set (Actions opts)
               then [PerspectiveSections (fst (content_stage e title content opts m tpl w)) (Perspective opts)]
               else [])
            @ tevs"
     and tevs: "\<forall>ev \<in> set tevs. translation_event ev"
    using process_article_async_trace by blast
  have g: "format_prompt c t \<noteq> generate_prompt t' c' ps" for t' c' ps c t
    by (simp add: generate_prompt_def format_prompt_def)
  have r: "format_prompt c t \<noteq> reauthor_prompt c' tp ps" for c' tp ps c t
    by (simp add: reauthor_prompt_def format_prompt_def)
  have no_c: "ChatCompletion m' (format_prompt c t) \<notin> set (content_events title content opts m tpl)"
    for m' c t
    using g r by (auto simp: content_events_def)
  have no_t: "ChatCompletion m' p \<notin> set tevs" for m' p
    using tevs by (auto simp: translation_event_def)
  have b: "\<forall>m' c t. ChatCompletion m' (format_prompt c t)
         \<notin> set (new_events w (snd (process_article_async e title content opts m tpl w)))"
    unfolding tr using no_c no_t by auto
  from a b show ?thesis by blast
qed

text \<open>
  Witness for C9: Format to Template alone, with a template.
\<close>

theorem format_to_template_never_invoked_witness:
  "new_events [] (snd (content_stage stub_env ''T'' ''c''
       \<lparr>Actions = [''Format to Template''], Perspective = [], Translation_Languages = []\<rparr>
       ''gpt'' (Some ''# Tpl'') []))
     = [ChatCompletion ''gpt'' (reauthor_prompt ''c'' (Some ''# Tpl'') [])]
   \<and> ChatCompletion ''gpt'' (format_prompt ''c'' ''# Tpl'')
       \<notin> set (new_events [] (snd (process_article_async stub_env ''T'' ''c''
       \<lparr>Actions = [''Format to Template''], Perspective = [], Translation_Languages = []\<rparr>
       ''gpt'' (Some ''# Tpl'') [])))"
proof -
  let ?fmt = "\<lparr>Actions = [''Format to Template''], Perspective = [], Translation_Languages = []\<rparr>"
  have selected: "''Format to Template'' \<in> set (Actions ?fmt) \<and> ''Generate Content'' \<notin> set (Actions ?fmt)"
    by simp
  have reauthor_prompt_sent: "new_events [] (snd (content_stage stub_env ''T'' ''c'' ?fmt
       ''gpt'' (Some ''# Tpl'') []))
     = [ChatCompletion ''gpt'' (reauthor_prompt ''c'' (Some ''# Tpl'') [])]"
    using format_to_template_never_invoked
      [of ?fmt stub_env "''T''" "''c''" "''gpt''" "Some ''# Tpl''" "[]",
        THEN conjunct1, THEN mp, OF selected, THEN conjunct2, THEN conjunct1]
    by simp
  have not_format: "ChatCompletion ''gpt'' (format_prompt ''c'' ''# Tpl'')
       \<notin> set (new_events [] (snd (process_article_async stub_env ''T'' ''c'' ?fmt
       ''gpt'' (Some ''# Tpl'') [])))"
    using format_to_template_never_invoked
      [of ?fmt stub_env "''T''" "''c''" "''gpt''" "Some ''# Tpl''" "[]", THEN conjunct2]
    by simp
  from reauthor_prompt_sent not_format show ?thesis
    by (rule conjI)
qed

text \<open>
  Claim C7, as stated, has all four prompts end with the instruction to return the content
  alone. The Translate prompt gives that instruction before the content and ends with the
  content; the Format-to-template prompt ends with the template and has no such
  instruction.
\<close>

theorem translate_and_format_prompts_end_with_input:
  "translate_prompt ''Hello'' ''French''
     = ''Translate the following content to French, maintaining its original structure and formatting. Provide the translated content directly, without any additional comments or questions:\<newline>\<newline>Hello''
   \<and> \<not> ends_with_instruction (translate_prompt ''Hello'' ''French'')
   \<and> format_prompt ''Hello'' ''# Title''
     = ''Format the following content to match the provided template structure, maintaining the original information:\<newline>\<newline>Content:\<newline>Hello\<newline>\<newline>Template:\<newline># Title''
   \<and> \<not> ends_with_instruction (format_prompt ''Hello'' ''# Title'')"
  by (simp add: translate_prompt_def format_prompt_def ends_with_instruction_def
      no_commentary_instruction_def suffix_to_prefix)

text \<open>
  Claim C7, amended: the Generate and the Reauthor prompt end, after all their inputs, with
  the instruction to provide the content without any additional comments or questions. The
  Translate prompt contains that instruction, followed by a colon, a blank line and the
  content to translate, which is its final text. The Format-to-template prompt ends with
  the template, and its fixed text holds no such instruction.
\<close>

theorem prompts_final_text:
  "ends_with_instruction (generate_prompt title content perspectives)
   \<and> ends_with_instruction (reauthor_prompt content template_content perspectives)
   \<and> (\<exists>head. translate_prompt content language
          = head @ no_commentary_instruction @ '':\<newline>\<newline>'' @ content)
   \<and> suffix (''Template:\<newline>'' @ template) (format_prompt content template)
   \<and> \<not> sublist no_commentary_instruction (format_prompt [] [])"
proof -
  have g: "ends_with_instruction (generate_prompt title content perspectives)"
  proof -
    have "generate_prompt title content perspectives =
      (''Generate a detailed knowledge base article based on the following title and content. If the content is a specific request (e.g., 'write a recipe for chocolate cake'), create an article that fulfills that request. Title: ''
       @ title @ ''\<newline>\<newline>Content or Request: '' @ content @ ''\<newline>\<newline>''
       @ perspectives_clause perspectives
       @ ''Provide the generated content in markdown format'')
      @ (no_commentary_instruction @ ''.'')"
      by (simp add: generate_prompt_def no_commentary_instruction_def)
    then show ?thesis
      unfolding ends_with_instruction_def by (metis suffixI)
  qed
  have r: "ends_with_instruction (reauthor_prompt content template_content perspectives)"
  proof -
    have "\<exists>head. reauthor_prompt content template_content perspectives
        = head @ (no_commentary_instruction @ ''.'')"
      unfolding reauthor_prompt_def no_commentary_instruction_def
      by (rule exI [of _ "(if strip content = [] then ''Generate a knowledge base article based on the following template:''
      else ''Reauthor the following content'')
       @ (if truthy template_content then
            '', using the provided template as a guide for formatting:\<newline>\<newline>Template:\<newline>''
              @ the template_content @ ''\<newline>\<newline>Content to reauthor:''
          else '', maintaining its core information but improving its clarity, structure, and readability:'')
       @ ''\<newline>\<newline>'' @ content @ ''\<newline>\<newline>''
       @ perspectives_clause perspectives
       @ ''Provide the reauthored content directly''"]) simp
    then show ?thesis
      unfolding ends_with_instruction_def by (metis suffixI)
  qed
  have t: "\<exists>head. translate_prompt content language
          = head @ no_commentary_instruction @ '':\<newline>\<newline>'' @ content"
    unfolding translate_prompt_def no_commentary_instruction_def
    by (rule exI [of _ "''Translate the following content to '' @ language
       @ '', maintaining its original structure and formatting. Provide the translated content directly''"]) simp
  have f: "suffix (''Template:\<newline>'' @ template) (format_prompt content template)"
    unfolding format_prompt_def
    by (rule suffixI [of _ "''Format the following content to match the provided template structure, maintaining the original information:\<newline>\<newline>Content:\<newline>''
       @ content @ ''\<newline>\<newline>''"]) simp
  have n: "\<not> sublist no_commentary_instruction (format_prompt [] [])"
    by (simp add: format_prompt_def no_commentary_instruction_def sublist_Cons_right)
  from g r t f n show ?thesis by blast
qed

text \<open>
  Claim C8 (every download is named \<open>{title}_{language_tag}.docx\<close> with the article's
  original title) fails for translated results: the pipeline stores \<open>{title}_{lang}\<close> as
  the result's title and \<open>display_results\<close> and \<open>create_zip_download\<close> append the
  language again. For the article \<open>Cake\<close> translated to French and Spanish the files
  are \<open>Cake_French_French.docx\<close> and \<open>Cake_Spanish_Spanish.docx\<close>, in the buttons and
  in \<open>kb_articles.zip\<close>.
\<close>

theorem translated_download_repeats_language:
  "fst (process_article_async stub_env ''Cake'' ''notes''
          \<lparr>Actions = [''Translate''], Perspective = [],
           Translation_Languages = [''French'', ''Spanish'']\<rparr> ''gpt'' None [])
     = Inr [(Some [80, 75], ''Cake_French'', ''French: notes'', ''French''),
            (Some [80, 75], ''Cake_Spanish'', ''Spanish: notes'', ''Spanish'')]
   \<and> display_results [(Some [80, 75], ''Cake_French'', ''French: notes'', ''French''),
                       (Some [80, 75], ''Cake_Spanish'', ''Spanish: notes'', ''Spanish'')]
     = (Inr (),
        [Subheader ''Generated Articles'',
         Expander ''Cake_French - French'',
         Markdown ''<div class=\"generated-content\">French: notes</div>'',
         DownloadButton ''Download Cake_French (French) as Word'' (DocxData [80, 75])
           ''Cake_French_French.docx''
           ''application/vnd.openxmlformats-officedocument.wordprocessingml.document'',
         Expander ''Cake_Spanish - Spanish'',
         Markdown ''<div class=\"generated-content\">Spanish: notes</div>'',
         DownloadButton ''Download Cake_Spanish (Spanish) as Word'' (DocxData [80, 75])
           ''Cake_Spanish_Spanish.docx''
           ''application/vnd.openxmlformats-officedocument.wordprocessingml.document'',
         DownloadButton ''Download All Articles as ZIP''
           (ZipData [(''Cake_French_French.docx'', [80, 75]),
                     (''Cake_Spanish_Spanish.docx'', [80, 75])])
           ''kb_articles.zip'' ''application/zip''])"
  by (simp add: process_article_async_def content_stage_def perspective_stage_def
      translation_stage_def stub_env_def display_results_def create_zip_download_def)

text \<open>
  Claim C2, as stated, has \<open>completed_operations\<close> equal to \<open>total_operations\<close> when
  the loop finishes. With two titles, one content and the single action Generate Content
  the total is 2, the loop runs once over the zipped pair and finishes with 1; the batch
  returns its one result normally.
\<close>

theorem completed_operations_below_total:
  "total_operations [''A'', ''B'']
      \<lparr>Actions = [''Generate Content''], Perspective = [], Translation_Languages = []\<rparr> = 2
   \<and> fst (batch_loop stub_env
            \<lparr>Actions = [''Generate Content''], Perspective = [], Translation_Languages = []\<rparr>
            ''gpt'' None 2 (zip [''A'', ''B''] [''x'']) [] 0 [Progress 0])
       = Inr ([(Some [80, 75], ''A'', ''# Article'', ''Original'')], 1)
   \<and> fst (process_multiple_articles_async stub_env [''A'', ''B''] [''x'']
            \<lparr>Actions = [''Generate Content''], Perspective = [], Translation_Languages = []\<rparr>
            ''gpt'' None [])
       = Inr [(Some [80, 75], ''A'', ''# Article'', ''Original'')]"
  by (simp add: total_operations_def operations_per_article_def process_multiple_articles_async_def
      process_article_async_def content_stage_def perspective_stage_def translation_stage_def
      generate_content_def send_to_openai_api_async_def stub_env_def strip_def isspace_def)

text \<open>
  Claim C2, amended: \<open>total_operations\<close> is the number of titles times the operations
  per article, fixed before the loop. In every state the loop reaches (the state after the
  first \<open>k\<close> zipped pairs), \<open>completed_operations\<close> is the number of pairs processed
  times the operations per article: it is 0 at the start, it does not decrease from one
  state to a later one, and it never exceeds \<open>total_operations\<close>. When the loop has
  finished it equals \<open>min(len(titles), len(contents))\<close> times the operations per
  article, which is \<open>total_operations\<close> exactly when there is a content for every title
  or an article counts no operation.
\<close>

theorem completed_operations_invariant:
  assumes run: "fst (batch_loop e opts m tpl (total_operations titles opts)
                      (take k (zip titles contents)) [] 0 w) = Inr (rs_k, c_k)"
  shows "c_k = min k (min (length titles) (length contents)) * operations_per_article opts
     \<and> c_k \<le> total_operations titles opts
     \<and> (\<forall>j\<le>k. \<exists>rs_j c_j.
           fst (batch_loop e opts m tpl (total_operations titles opts)
                  (take j (zip titles contents)) [] 0 w) = Inr (rs_j, c_j)
           \<and> c_j = min j (min (length titles) (length contents)) * operations_per_article opts
           \<and> c_j \<le> c_k)
     \<and> (min (length titles) (length contents) \<le> k \<longrightarrow>
          (c_k = total_operations titles opts
             \<longleftrightarrow> length titles \<le> length contents \<or> operations_per_article opts = 0))"
proof -
  let ?n = "min (length titles) (length contents)"
  let ?per = "operations_per_article opts"
  let ?loop = "\<lambda>j. fst (batch_loop e opts m tpl (total_operations titles opts)
                  (take j (zip titles contents)) [] 0 w)"
  have len: "length (take j (zip titles contents)) = min j ?n" for j
    by (simp add: min.commute)
  have state: "c = min j ?n * ?per" if "?loop j = Inr (rs, c)" for j rs c
    using batch_loop_state [OF that] len [of j] by simp
  have c_k: "c_k = min k ?n * ?per"
    using run by (rule state)
  have "min k ?n \<le> length titles"
    by simp
  then have "min k ?n * ?per \<le> length titles * ?per"
    by (rule mult_le_mono1)
  then have bound: "c_k \<le> total_operations titles opts"
    by (simp add: c_k total_operations_def)
  have earlier: "\<exists>rs_j c_j. ?loop j = Inr (rs_j, c_j) \<and> c_j = min j ?n * ?per \<and> c_j \<le> c_k"
    if "j \<le> k" for j
  proof -
    from batch_loop_prefix [OF run, of j] that
    obtain r where r: "?loop j = Inr r"
      by (auto simp: min_def)
    obtain rs_j c_j where "r = (rs_j, c_j)"
      by (cases r)
    with r have loop: "?loop j = Inr (rs_j, c_j)"
      by simp
    then have c_j: "c_j = min j ?n * ?per"
      by (rule state)
    from that have "min j ?n \<le> min k ?n"
      by (auto simp: min_def)
    then have "min j ?n * ?per \<le> min k ?n * ?per"
      by (rule mult_le_mono1)
    with loop c_j c_k show ?thesis
      by simp
  qed
  have final: "c_k = total_operations titles opts
             \<longleftrightarrow> length titles \<le> length contents \<or> ?per = 0" if "?n \<le> k"
  proof -
    from that have "c_k = ?n * ?per"
      by (simp add: c_k min_absorb2)
    then show ?thesis
      by (auto simp: total_operations_def min_def)
  qed
  from c_k bound earlier final show ?thesis
    by blast
qed

text \<open>
  Witness for C2: two titles with two contents and the action Generate Content; the loop
  finishes with 2 of 2 operations, after a state with at most 2.
\<close>

theorem completed_operations_invariant_witness:
  "(2::nat) = min 2 (min (length [''A'', ''B'']) (length [''x'', ''y'']))
        * operations_per_article
            \<lparr>Actions = [''Generate Content''], Perspective = [], Translation_Languages = []\<rparr>
   \<and> 2 \<le> total_operations [''A'', ''B'']
            \<lparr>Actions = [''Generate Content''], Perspective = [], Translation_Languages = []\<rparr>
   \<and> (\<exists>rs c. fst (batch_loop stub_env
            \<lparr>Actions = [''Generate Content''], Perspective = [], Translation_Languages = []\<rparr>
            ''gpt'' None
            (total_operations [''A'', ''B'']
               \<lparr>Actions = [''Generate Content''], Perspective = [], Translation_Languages = []\<rparr>)
            (take 1 (zip [''A'', ''B''] [''x'', ''y''])) [] 0 [Progress 0]) = Inr (rs, c)
          \<and> c \<le> 2)
   \<and> 2 = total_operations [''A'', ''B'']
            \<lparr>Actions = [''Generate Content''], Perspective = [], Translation_Languages = []\<rparr>"
proof -
  let ?o = "\<lparr>Actions = [''Generate Content''], Perspective = [], Translation_Languages = []\<rparr>"
  have run: "fst (batch_loop stub_env ?o ''gpt'' None (total_operations [''A'', ''B''] ?o)
                (take 2 (zip [''A'', ''B''] [''x'', ''y''])) [] 0 [Progress 0])
      = Inr ([(Some [80, 75], ''A'', ''# Article'', ''Original''),
              (Some [80, 75], ''B'', ''# Article'', ''Original'')], 2)"
    by (simp add: total_operations_def operations_per_article_def
      process_article_async_def content_stage_def perspective_stage_def translation_stage_def
      generate_content_def send_to_openai_api_async_def stub_env_def strip_def isspace_def)
  note inv = completed_operations_invariant [OF run]
  have one: "(1::nat) \<le> 2" and all: "min (length [''A'', ''B'']) (length [''x'', ''y'']) \<le> (2::nat)"
    and lens: "length [''A'', ''B''] \<le> length [''x'', ''y'']"
    by simp_all
  from inv [THEN conjunct1] inv [THEN conjunct2, THEN conjunct1]
    inv [THEN conjunct2, THEN conjunct2, THEN conjunct1, rule_format, OF one]
    inv [THEN conjunct2, THEN conjunct2, THEN conjunct2, rule_format, OF all] lens
  show ?thesis
    by blast
qed

text \<open>
  Claim C10: the loop of the batch orchestrator runs over the positions below
  \<open>min(len(titles), len(contents))\<close>, each pairing the title and the content at that
  position; entries beyond are not looked at. \<open>total_operations\<close> counts every title.
  When the loop finishes, \<open>completed_operations\<close> is that minimum times the operations
  per article and the results are those of the titles at these positions, in order; so with
  fewer contents than titles, and at least one operation per article, the loop finishes
  strictly below \<open>total_operations\<close>. The loop does finish when an article counts at
  least one operation (or no pair exists) and the translation helper, if used, always
  returns text.
\<close>

theorem batch_pairs_by_position:
  "fst (process_multiple_articles_async e titles contents opts m tpl w) =
     (case fst (batch_loop e opts m tpl (length titles * operations_per_article opts)
                  (map (\<lambda>i. (titles ! i, contents ! i))
                     [0..<min (length titles) (length contents)])
                  [] 0 (w @ [Progress 0])) of
        Inl err \<Rightarrow> Inl err
      | Inr (all_results, completed) \<Rightarrow> Inr all_results)
   \<and> (\<forall>all_results completed.
        fst (batch_loop e opts m tpl (total_operations titles opts) (zip titles contents)
               [] 0 (w @ [Progress 0])) = Inr (all_results, completed) \<longrightarrow>
          completed = min (length titles) (length contents) * operations_per_article opts
          \<and> labels all_results
              = concat (map (\<lambda>i. result_labels opts (titles ! i))
                          [0..<min (length titles) (length contents)])
          \<and> (length contents < length titles \<and> 0 < operations_per_article opts \<longrightarrow>
                completed < total_operations titles opts))
   \<and> ((''Translate'' \<in> set (Actions opts) \<longrightarrow> (\<forall>w' c l. pu_translate_content e w' c l \<noteq> None))
        \<and> (0 < operations_per_article opts \<or> titles = [] \<or> contents = []) \<longrightarrow>
        (\<exists>all_results completed.
           fst (batch_loop e opts m tpl (total_operations titles opts) (zip titles contents)
                  [] 0 (w @ [Progress 0])) = Inr (all_results, completed)))"
proof -
  let ?n = "min (length titles) (length contents)"
  let ?per = "operations_per_article opts"
  let ?loop = "fst (batch_loop e opts m tpl (total_operations titles opts) (zip titles contents)
               [] 0 (w @ [Progress 0]))"
  have positions: "fst (process_multiple_articles_async e titles contents opts m tpl w) =
     (case fst (batch_loop e opts m tpl (length titles * ?per)
                  (map (\<lambda>i. (titles ! i, contents ! i)) [0..<?n])
                  [] 0 (w @ [Progress 0])) of
        Inl err \<Rightarrow> Inl err
      | Inr (all_results, completed) \<Rightarrow> Inr all_results)"
    unfolding process_multiple_articles_async_fst total_operations_def
    by (simp only: zip_by_position [of titles contents])
  have finished: "completed = ?n * ?per
          \<and> labels all_results = concat (map (\<lambda>i. result_labels opts (titles ! i)) [0..<?n])
          \<and> (length contents < length titles \<and> 0 < ?per \<longrightarrow>
                completed < total_operations titles opts)"
    if loop: "?loop = Inr (all_results, completed)" for all_results completed
  proof -
    from batch_loop_state [OF loop]
    have c: "completed = length (zip titles contents) * ?per"
      and l: "labels all_results
          = concat (map (\<lambda>(title, content). result_labels opts title) (zip titles contents))"
      by (simp_all add: labels_def)
    have "map (\<lambda>(title, content). result_labels opts title) (zip titles contents)
        = map (\<lambda>i. result_labels opts (titles ! i)) [0..<?n]"
      by (simp only: zip_by_position [of titles contents]) simp
    with l have l': "labels all_results
        = concat (map (\<lambda>i. result_labels opts (titles ! i)) [0..<?n])"
      by simp
    from c have c': "completed = ?n * ?per"
      by simp
    have "completed < total_operations titles opts"
      if "length contents < length titles" "0 < ?per"
      using that by (simp add: c' total_operations_def min_def)
    with c' l' show ?thesis
      by blast
  qed
  have returns: "\<exists>all_results completed. ?loop = Inr (all_results, completed)"
    if pu: "''Translate'' \<in> set (Actions opts) \<longrightarrow> (\<forall>w' c l. pu_translate_content e w' c l \<noteq> None)"
      and per: "0 < ?per \<or> titles = [] \<or> contents = []"
  proof -
    from per have "zip titles contents = [] \<or> total_operations titles opts \<noteq> 0"
      by (cases titles) (auto simp: total_operations_def)
    from batch_loop_returns [OF pu this]
    obtain r where "?loop = Inr r"
      by blast
    then show ?thesis
      by (cases r) auto
  qed
  from positions finished returns show ?thesis
    by blast
qed

text \<open>
  Witness for C10: three titles, two contents, the action Generate Content: the loop
  finishes with 2 operations of 3, and with the results of the first two titles.
\<close>

theorem batch_pairs_by_position_witness:
  "(\<exists>all_results.
      fst (batch_loop stub_env
             \<lparr>Actions = [''Generate Content''], Perspective = [], Translation_Languages = []\<rparr>
             ''gpt'' None
             (total_operations [''A'', ''B'', ''C'']
                \<lparr>Actions = [''Generate Content''], Perspective = [], Translation_Languages = []\<rparr>)
             (zip [''A'', ''B'', ''C''] [''x'', ''y'']) [] 0 ([] @ [Progress 0]))
        = Inr (all_results, 2)
      \<and> labels all_results = [(''A'', ''Original''), (''B'', ''Original'')])
   \<and> (2::nat) < total_operations [''A'', ''B'', ''C'']
                \<lparr>Actions = [''Generate Content''], Perspective = [], Translation_Languages = []\<rparr>"
proof -
  let ?o = "\<lparr>Actions = [''Generate Content''], Perspective = [], Translation_Languages = []\<rparr>"
  let ?loop = "fst (batch_loop stub_env ?o ''gpt'' None (total_operations [''A'', ''B'', ''C''] ?o)
             (zip [''A'', ''B'', ''C''] [''x'', ''y'']) [] 0 ([] @ [Progress 0]))"
  note inst = batch_pairs_by_position [of stub_env "[''A'', ''B'', ''C'']" "[''x'', ''y'']" ?o "''gpt''" None "[]"]
  have pre: "(''Translate'' \<in> set (Actions ?o) \<longrightarrow> (\<forall>w' c l. pu_translate_content stub_env w' c l \<noteq> None))
        \<and> (0 < operations_per_article ?o \<or> [''A'', ''B'', ''C''] = [] \<or> [''x'', ''y''] = [])"
    by (simp add: operations_per_article_def)
  from inst [THEN conjunct2, THEN conjunct2, rule_format, OF pre]
  obtain all_results completed where loop: "?loop = Inr (all_results, completed)"
    by blast
  have short: "length [''x'', ''y''] < length [''A'', ''B'', ''C''] \<and> 0 < operations_per_article ?o"
    by (simp add: operations_per_article_def)
  note fin = inst [THEN conjunct2, THEN conjunct1, rule_format, OF loop]
  from fin [THEN conjunct1] have c: "completed = 2"
    by (simp add: operations_per_article_def)
  from fin [THEN conjunct2, THEN conjunct1] have l: "labels all_results = [(''A'', ''Original''), (''B'', ''Original'')]"
    by (simp add: result_labels_def upt_rec)
  from fin [THEN conjunct2, THEN conjunct2, rule_format, OF short] c
  have "(2::nat) < total_operations [''A'', ''B'', ''C''] ?o"
    by simp
  with loop c l show ?thesis
    by blast
qed

end
